theory Spec2Isabelle
  imports Main "HOL-Library.Word" "HOL-Library.Sublist"
begin

section \<open>JavaScript strings and values\<close>

text \<open>
  A JavaScript string is a sequence of 16-bit UTF-16 code units. String literals of the
  source are ASCII; \<open>lit\<close> turns an ASCII literal into its code units.
\<close>

type_synonym code_unit = "16 word"
type_synonym js_string = "code_unit list"

definition lit :: "string \<Rightarrow> js_string" where
  "lit s = map (\<lambda>c. of_char c) s"

text \<open>
  \<open>String.prototype.trim\<close> removes white space and line terminators from both ends.
  ECMAScript's WhiteSpace is TAB, VT, FF, ZWNBSP and the Unicode category Zs; its
  LineTerminator is LF, CR, LS and PS. All of them are single code units.
\<close>

definition isWhiteSpace :: "code_unit \<Rightarrow> bool" where
  "isWhiteSpace c =
     (c = 0x0009 \<or> c = 0x000A \<or> c = 0x000B \<or> c = 0x000C \<or> c = 0x000D \<or> c = 0x0020 \<or>
      c = 0x00A0 \<or> c = 0x1680 \<or> (0x2000 \<le> c \<and> c \<le> 0x200A) \<or> c = 0x2028 \<or>
      c = 0x2029 \<or> c = 0x202F \<or> c = 0x205F \<or> c = 0x3000 \<or> c = 0xFEFF)"

definition trim :: "js_string \<Rightarrow> js_string" where
  "trim s = rev (dropWhile isWhiteSpace (rev (dropWhile isWhiteSpace s)))"

text \<open>\<open>s.includes(t)\<close>: \<open>t\<close> occurs in \<open>s\<close> as a contiguous run of code units.\<close>

fun includes_js :: "js_string \<Rightarrow> js_string \<Rightarrow> bool" where
  "includes_js [] t = (t = [])"
| "includes_js (c # cs) t = (prefix t (c # cs) \<or> includes_js cs t)"

text \<open>
  The fields of a request are declared \<open>string\<close>, and the response's content is declared
  \<open>string | null\<close>; the code tests both for \<open>undefined\<close> and \<open>null\<close> at run time.
\<close>

datatype MaybeString = Undefined | Null | Str js_string

text \<open>\<open>x?.trim()\<close>: optional chaining yields \<open>undefined\<close> on \<open>undefined\<close> and \<open>null\<close>.\<close>

fun optTrim :: "MaybeString \<Rightarrow> MaybeString" where
  "optTrim (Str s) = Str (trim s)"
| "optTrim Undefined = Undefined"
| "optTrim Null = Undefined"

text \<open>Truthiness: \<open>undefined\<close>, \<open>null\<close> and the empty string are falsy.\<close>

fun truthy :: "MaybeString \<Rightarrow> bool" where
  "truthy (Str s) = (s \<noteq> [])"
| "truthy Undefined = False"
| "truthy Null = False"

text \<open>A value in a template literal: \<open>`${x}`\<close>.\<close>

fun toString :: "MaybeString \<Rightarrow> js_string" where
  "toString (Str s) = s"
| "toString Undefined = lit ''undefined''"
| "toString Null = lit ''null''"

text \<open>Values that are not \<open>Error\<close> objects; JavaScript can throw any of them.\<close>

datatype JsValue = JsUndefined | JsNull | JsBoolean bool | JsNumber int | JsString js_string

section \<open>constants.ts\<close>

definition DEFAULT_MORPH_TIMEOUT_MS :: int where
  "DEFAULT_MORPH_TIMEOUT_MS = 30000"

definition MORPH_FAST_APPLY_MODEL :: js_string where
  "MORPH_FAST_APPLY_MODEL = lit ''morph-v3-large''"

section \<open>MorphService.ts: the data\<close>

record MorphEditRequest =
  instructions :: MaybeString
  originalContent :: MaybeString
  codeEdit :: MaybeString

record MorphServiceConfig =
  apiKey :: js_string
  baseUrl :: js_string
  timeout :: "int option"

text \<open>
  An \<open>Error\<close> object that is not a \<open>MorphError\<close>, and \<open>class MorphError extends Error\<close>
  with its message and its optional cause (its name is always \<open>MorphError\<close>). What a
  \<open>catch\<close> clause can receive is one of the two, or a value that is no \<open>Error\<close> at all.
\<close>

datatype JsError = JsError (error_name: js_string) (error_message: js_string)

datatype MorphError = MorphError (message: js_string) (cause: "JsError option")

datatype Thrown = ThrownMorphError MorphError | ThrownError JsError | ThrownValue JsValue

subsection \<open>The OpenAI client\<close>

text \<open>
  The client is built by the constructor from three options. A chat completion request
  carries the model, the messages, an optional token cap and the streaming flag; the
  response is a list of choices, each with an optional message whose content is a string
  or \<open>null\<close>.
\<close>

datatype OpenAI = OpenAI (client_apiKey: js_string) (baseURL: js_string) (client_timeout: "int option")

record ChatMessage =
  role :: js_string
  content :: js_string

record ChatRequest =
  model :: js_string
  messages :: "ChatMessage list"
  max_tokens :: "int option"
  stream :: bool

datatype ChatCompletionMessage = ChatCompletionMessage (message_content: MaybeString)

datatype Choice = Choice (choice_message: "ChatCompletionMessage option")

datatype ChatCompletion = ChatCompletion (choices: "Choice list")

text \<open>
  The remote side is a parameter: for a client and a request it either rejects or answers
  with a completion. The client is a private field made from the OpenAI SDK, which never
  makes a \<open>MorphError\<close> (a class of this module), so a rejection is an \<open>Error\<close> of another
  class or a value that is no \<open>Error\<close>.
\<close>

datatype Rejection = RejectError JsError | RejectValue JsValue

fun thrown :: "Rejection \<Rightarrow> Thrown" where
  "thrown (RejectError e) = ThrownError e"
| "thrown (RejectValue v) = ThrownValue v"

type_synonym Remote = "OpenAI \<Rightarrow> ChatRequest \<Rightarrow> Rejection + ChatCompletion"

text \<open>
  The observable effects of a call: the requests handed to the client, in order, and the
  lines written by \<open>console.warn\<close>.
\<close>

record Effects =
  requests :: "ChatRequest list"
  warnings :: "js_string list"

definition create :: "Remote \<Rightarrow> OpenAI \<Rightarrow> ChatRequest \<Rightarrow> Effects \<Rightarrow> (Rejection + ChatCompletion) \<times> Effects" where
  "create remote cl q fx = (remote cl q, fx\<lparr>requests := requests fx @ [q]\<rparr>)"

definition console_warn :: "js_string \<Rightarrow> Effects \<Rightarrow> Effects" where
  "console_warn line fx = fx\<lparr>warnings := warnings fx @ [line]\<rparr>"

section \<open>MorphService.ts: the service\<close>

record MorphService =
  client :: OpenAI
  config :: MorphServiceConfig

text \<open>The constructor; \<open>??\<close> replaces only an absent timeout.\<close>

definition MorphService_new :: "MorphServiceConfig \<Rightarrow> MorphService" where
  "MorphService_new cfg =
     (let this_config = cfg\<lparr>timeout := Some (case timeout cfg of None \<Rightarrow> DEFAULT_MORPH_TIMEOUT_MS | Some t \<Rightarrow> t)\<rparr>
      in \<lparr>client = OpenAI (apiKey cfg) (baseUrl cfg) (timeout this_config), config = this_config\<rparr>)"

definition formatMorphPrompt :: "MorphEditRequest \<Rightarrow> js_string" where
  "formatMorphPrompt request =
     lit ''<instruction>'' @ toString (instructions request) @ lit ''</instruction>\<newline><code>'' @
     toString (originalContent request) @ lit ''</code>\<newline><update>'' @
     toString (codeEdit request) @ lit ''</update>''"

definition lazy_marker_warning :: js_string where
  "lazy_marker_warning = lit ''Morph edit request does not contain lazy edit markers (// ... existing code ...). This may result in unexpected behavior.''"

definition validateEditRequest :: "MorphEditRequest \<Rightarrow> Effects \<Rightarrow> (MorphError + unit) \<times> Effects" where
  "validateEditRequest request fx =
     (if \<not> truthy (optTrim (instructions request)) then
        (Inl (MorphError (lit ''Instructions are required and cannot be empty'') None), fx)
      else
        (case originalContent request of
           Undefined \<Rightarrow>
             (Inl (MorphError (lit ''Original content is required (can be empty string for new files)'') None), fx)
         | Null \<Rightarrow>
             (Inl (MorphError (lit ''Original content is required (can be empty string for new files)'') None), fx)
         | Str original \<Rightarrow>
             (if \<not> truthy (optTrim (codeEdit request)) then
                (Inl (MorphError (lit ''Code edit is required and cannot be empty'') None), fx)
              else
                (case codeEdit request of
                   Str edit \<Rightarrow>
                     (if includes_js edit (lit ''// ... existing code ...'') \<or>
                         includes_js edit (lit ''# ... existing code ...'') \<or>
                         includes_js edit (lit ''<!-- ... existing code ... -->'')
                      then (Inr (), fx)
                      else if length original > 0 then (Inr (), console_warn lazy_marker_warning fx)
                      else (Inr (), fx))
                 | _ \<Rightarrow>
                     (Inl (MorphError (lit ''Code edit is required and cannot be empty'') None), fx)))))"

text \<open>
  The last case is never reached: \<open>!request.codeEdit?.trim()\<close> is true of \<open>undefined\<close> and
  \<open>null\<close>, so the marker test reads a string.
\<close>

text \<open>\<open>response.choices[0]?.message?.content\<close>\<close>

definition firstChoiceContent :: "ChatCompletion \<Rightarrow> MaybeString" where
  "firstChoiceContent response =
     (case choices response of
        [] \<Rightarrow> Undefined
      | c # _ \<Rightarrow> (case choice_message c of None \<Rightarrow> Undefined | Some m \<Rightarrow> message_content m))"

text \<open>The body of the \<open>try\<close> block of \<open>applyEdit\<close>: what it returns or throws.\<close>

definition applyEdit_try :: "Remote \<Rightarrow> MorphService \<Rightarrow> MorphEditRequest \<Rightarrow> Effects \<Rightarrow> (Thrown + js_string) \<times> Effects" where
  "applyEdit_try remote this request fx =
     (case validateEditRequest request fx of
        (Inl e, fx1) \<Rightarrow> (Inl (ThrownMorphError e), fx1)
      | (Inr _, fx1) \<Rightarrow>
          (let morphPrompt = formatMorphPrompt request in
           (case create remote (client this)
                   \<lparr>model = MORPH_FAST_APPLY_MODEL,
                    messages = [\<lparr>role = lit ''user'', content = morphPrompt\<rparr>],
                    max_tokens = None,
                    stream = False\<rparr> fx1 of
              (Inl rejection, fx2) \<Rightarrow> (Inl (thrown rejection), fx2)
            | (Inr response, fx2) \<Rightarrow>
                (case firstChoiceContent response of
                   Str mergedCode \<Rightarrow>
                     (if mergedCode = [] then
                        (Inl (ThrownMorphError (MorphError (lit ''Morph API returned empty response'') None)), fx2)
                      else (Inr mergedCode, fx2))
                 | Undefined \<Rightarrow>
                     (Inl (ThrownMorphError (MorphError (lit ''Morph API returned empty response'') None)), fx2)
                 | Null \<Rightarrow>
                     (Inl (ThrownMorphError (MorphError (lit ''Morph API returned empty response'') None)), fx2)))))"

text \<open>The \<open>catch\<close> clause of \<open>applyEdit\<close>: the error it throws for the value it caught.\<close>

fun applyEdit_catch :: "Thrown \<Rightarrow> MorphError" where
  "applyEdit_catch (ThrownMorphError e) = e"
| "applyEdit_catch (ThrownError e) =
     MorphError (lit ''Morph API request failed: '' @ error_message e) (Some e)"
| "applyEdit_catch (ThrownValue v) =
     MorphError (lit ''Morph API request failed: '' @ lit ''Unknown error'') None"

definition applyEdit :: "Remote \<Rightarrow> MorphService \<Rightarrow> MorphEditRequest \<Rightarrow> Effects \<Rightarrow> (MorphError + js_string) \<times> Effects" where
  "applyEdit remote this request fx =
     (case applyEdit_try remote this request fx of
        (Inl error, fx') \<Rightarrow> (Inl (applyEdit_catch error), fx')
      | (Inr mergedCode, fx') \<Rightarrow> (Inr mergedCode, fx'))"

text \<open>
  \<open>validateApiKey\<close>: one request with a fixed prompt and a cap of one token; the \<open>catch\<close>
  clause returns \<open>false\<close> for whatever was thrown.
\<close>

definition validateApiKey :: "Remote \<Rightarrow> MorphService \<Rightarrow> Effects \<Rightarrow> (Thrown + bool) \<times> Effects" where
  "validateApiKey remote this fx =
     (case create remote (client this)
             \<lparr>model = MORPH_FAST_APPLY_MODEL,
              messages = [\<lparr>role = lit ''user'',
                           content = lit ''<instruction>test</instruction>\<newline><code>test</code>\<newline><update>test</update>''\<rparr>],
              max_tokens = Some 1,
              stream = False\<rparr> fx of
        (Inl rejection, fx') \<Rightarrow> (Inr False, fx')
      | (Inr response, fx') \<Rightarrow> (Inr True, fx'))"

section \<open>index.ts\<close>

text \<open>
  Modelled from the spec: the class \<open>CacheService\<close> (\<open>@core/storage/CacheService\<close>) is
  not among the sources. The spec calls it an external settings store that supplies a
  feature-enabled flag, a credential string and a base endpoint URL. The record holds what
  \<open>getGlobalStateKey("morphEnabled")\<close>, \<open>getSecretKey("morphApiKey")\<close> and
  \<open>getGlobalStateKey("morphBaseUrl")\<close> return; \<open>None\<close> is \<open>undefined\<close>.
\<close>

record CacheService =
  morphEnabled :: "bool option"
  morphApiKey :: "js_string option"
  morphBaseUrl :: "js_string option"

text \<open>Truthiness of a boolean and of a string that may be \<open>undefined\<close>.\<close>

fun truthy_flag :: "bool option \<Rightarrow> bool" where
  "truthy_flag (Some b) = b"
| "truthy_flag None = False"

fun truthy_text :: "js_string option \<Rightarrow> bool" where
  "truthy_text (Some s) = (s \<noteq> [])"
| "truthy_text None = False"

text \<open>
  \<open>createMorphService\<close>; \<open>null\<close> is \<open>None\<close>. The \<open>console.log\<close> lines only report the
  values read and are left out. After the test the key is a string; the last case is never
  reached.
\<close>

definition createMorphService :: "CacheService \<Rightarrow> MorphService option" where
  "createMorphService cacheService =
     (if \<not> truthy_flag (morphEnabled cacheService) \<or> \<not> truthy_text (morphApiKey cacheService) then None
      else
        (case morphApiKey cacheService of
           Some key \<Rightarrow>
             Some (MorphService_new
               \<lparr>apiKey = key,
                baseUrl = (if truthy_text (morphBaseUrl cacheService)
                           then (case morphBaseUrl cacheService of Some url \<Rightarrow> url | None \<Rightarrow> lit ''https://api.morphllm.com/v1'')
                           else lit ''https://api.morphllm.com/v1''),
                timeout = None\<rparr>)
         | None \<Rightarrow> None))"

text \<open>
  \<open>Boolean(morphEnabled && morphApiKey)\<close>: \<open>a && b\<close> is \<open>b\<close> when \<open>a\<close> is truthy and \<open>a\<close>
  otherwise.
\<close>

definition isMorphAvailable :: "CacheService \<Rightarrow> bool" where
  "isMorphAvailable cacheService =
     (if truthy_flag (morphEnabled cacheService) then truthy_text (morphApiKey cacheService)
      else truthy_flag (morphEnabled cacheService))"

section \<open>Notions used to state the properties\<close>

text \<open>The request \<open>applyEdit\<close> hands to the client, and the one \<open>validateApiKey\<close> does.\<close>

abbreviation applyEdit_request :: "MorphEditRequest \<Rightarrow> ChatRequest" where
  "applyEdit_request request \<equiv>
     \<lparr>model = MORPH_FAST_APPLY_MODEL,
      messages = [\<lparr>role = lit ''user'', content = formatMorphPrompt request\<rparr>],
      max_tokens = None,
      stream = False\<rparr>"

abbreviation validateApiKey_request :: ChatRequest where
  "validateApiKey_request \<equiv>
     \<lparr>model = MORPH_FAST_APPLY_MODEL,
      messages = [\<lparr>role = lit ''user'',
                   content = lit ''<instruction>test</instruction>\<newline><code>test</code>\<newline><update>test</update>''\<rparr>],
      max_tokens = Some 1,
      stream = False\<rparr>"

text \<open>
  The three error kinds of the specification are all \<open>MorphError\<close> in the code. A
  validation error is one of the three that \<open>validateEditRequest\<close> throws.
\<close>

definition ValidationError :: "MorphError \<Rightarrow> bool" where
  "ValidationError e =
     (e = MorphError (lit ''Instructions are required and cannot be empty'') None \<or>
      e = MorphError (lit ''Original content is required (can be empty string for new files)'') None \<or>
      e = MorphError (lit ''Code edit is required and cannot be empty'') None)"

text \<open>Inputs for the examples.\<close>

abbreviation no_effects :: Effects where
  "no_effects \<equiv> \<lparr>requests = [], warnings = []\<rparr>"

abbreviation example_service :: MorphService where
  "example_service \<equiv>
     MorphService_new \<lparr>apiKey = lit ''sk-test'', baseUrl = lit ''https://api.morphllm.com/v1'', timeout = None\<rparr>"

abbreviation example_request :: MorphEditRequest where
  "example_request \<equiv>
     \<lparr>instructions = Str (lit ''add logging''),
      originalContent = Str (lit ''a''),
      codeEdit = Str (lit ''// ... existing code ...\<newline>b'')\<rparr>"

text \<open>
  Remote sides for the examples: one that answers every request with the same completion,
  one that rejects every request with the same value.
\<close>

definition responding :: "ChatCompletion \<Rightarrow> Remote" where
  [simp]: "responding response cl q = Inr response"

definition rejecting :: "Rejection \<Rightarrow> Remote" where
  [simp]: "rejecting rejection cl q = Inl rejection"

abbreviation answering :: "js_string \<Rightarrow> Remote" where
  "answering text \<equiv> responding (ChatCompletion [Choice (Some (ChatCompletionMessage (Str text)))])"

section \<open>Strings: helper facts\<close>

lemma includes_js_iff_sublist: "includes_js s t \<longleftrightarrow> sublist t s"
  by (induction s) (auto simp: sublist_Cons_right)

lemma trim_eq_Nil_iff: "trim s = [] \<longleftrightarrow> list_all isWhiteSpace s"
proof -
  have "dropWhile isWhiteSpace (rev (dropWhile isWhiteSpace s)) = [] \<longleftrightarrow> dropWhile isWhiteSpace s = []"
  proof
    assume a: "dropWhile isWhiteSpace (rev (dropWhile isWhiteSpace s)) = []"
    show "dropWhile isWhiteSpace s = []"
    proof (rule ccontr)
      assume n: "dropWhile isWhiteSpace s \<noteq> []"
      then have "\<not> isWhiteSpace (hd (dropWhile isWhiteSpace s))" by (rule hd_dropWhile)
      moreover have "hd (dropWhile isWhiteSpace s) \<in> set (dropWhile isWhiteSpace s)" using n by simp
      ultimately show False using a by auto
    qed
  next
    assume "dropWhile isWhiteSpace s = []"
    then show "dropWhile isWhiteSpace (rev (dropWhile isWhiteSpace s)) = []"
      by (simp del: dropWhile_eq_Nil_conv)
  qed
  then show ?thesis by (simp add: trim_def list_all_iff)
qed

section \<open>validateEditRequest and applyEdit: helper facts\<close>

lemma validateEditRequest_error_effects:
  "fst (validateEditRequest request fx) = Inl e \<Longrightarrow> snd (validateEditRequest request fx) = fx"
  by (auto simp: validateEditRequest_def split: if_splits MaybeString.splits)

lemma validateEditRequest_requests:
  "requests (snd (validateEditRequest request fx)) = requests fx"
  by (auto simp: validateEditRequest_def console_warn_def split: if_splits MaybeString.splits)

lemma validateEditRequest_accepts:
  assumes "instructions request = Str i" "\<not> list_all isWhiteSpace i"
    and "originalContent request = Str original"
    and "codeEdit request = Str edit" "\<not> list_all isWhiteSpace edit"
  shows "validateEditRequest request fx =
     (Inr (),
      if includes_js edit (lit ''// ... existing code ...'') \<or>
         includes_js edit (lit ''# ... existing code ...'') \<or>
         includes_js edit (lit ''<!-- ... existing code ... -->'') \<or> original = []
      then fx else console_warn lazy_marker_warning fx)"
  using assms by (simp add: validateEditRequest_def trim_eq_Nil_iff)

lemma validateEditRequest_throws:
  "fst (validateEditRequest request fx) = Inl e \<Longrightarrow> ValidationError e"
  by (auto simp: validateEditRequest_def ValidationError_def split: if_splits MaybeString.splits)

lemma applyEdit_validation_failure:
  "validateEditRequest request fx = (Inl e, fx') \<Longrightarrow> applyEdit remote this request fx = (Inl e, fx')"
  by (simp add: applyEdit_def applyEdit_try_def)

lemma applyEdit_after_validation:
  assumes "validateEditRequest request fx = (Inr u, fx1)"
  shows "applyEdit remote this request fx =
     (case remote (client this) (applyEdit_request request) of
        Inl rejection \<Rightarrow> Inl (applyEdit_catch (thrown rejection))
      | Inr response \<Rightarrow>
          (if truthy (firstChoiceContent response) then Inr (toString (firstChoiceContent response))
           else Inl (MorphError (lit ''Morph API returned empty response'') None)),
      fx1\<lparr>requests := requests fx1 @ [applyEdit_request request]\<rparr>)"
  using assms
  by (auto simp: applyEdit_def applyEdit_try_def create_def Let_def split: sum.splits MaybeString.splits)

lemma request_failed_not_empty_response:
  "lit ''Morph API request failed: '' @ m \<noteq> lit ''Morph API returned empty response''"
  by (simp add: lit_def)

lemma applyEdit_accepted:
  assumes "instructions request = Str i" "\<not> list_all isWhiteSpace i"
    and "originalContent request = Str original"
    and "codeEdit request = Str edit" "\<not> list_all isWhiteSpace edit"
  shows "fst (applyEdit remote this request fx) =
     (case remote (client this) (applyEdit_request request) of
        Inl rejection \<Rightarrow> Inl (applyEdit_catch (thrown rejection))
      | Inr response \<Rightarrow>
          (if truthy (firstChoiceContent response) then Inr (toString (firstChoiceContent response))
           else Inl (MorphError (lit ''Morph API returned empty response'') None)))"
  using applyEdit_after_validation [OF validateEditRequest_accepts [OF assms], of remote this]
  by simp

lemma applyEdit_accepted_effects:
  assumes "instructions request = Str i" "\<not> list_all isWhiteSpace i"
    and "originalContent request = Str original"
    and "codeEdit request = Str edit" "\<not> list_all isWhiteSpace edit"
  shows "snd (applyEdit remote this request fx) =
     (snd (validateEditRequest request fx))\<lparr>requests := requests fx @ [applyEdit_request request]\<rparr>"
  using applyEdit_after_validation [OF validateEditRequest_accepts [OF assms], of remote this]
    validateEditRequest_accepts [OF assms, of fx] validateEditRequest_requests [of request fx]
  by simp

lemma firstChoiceContent_shape:
  "firstChoiceContent r = c \<longleftrightarrow>
     (c = Undefined \<and> (choices r = [] \<or> (\<exists>rest. choices r = Choice None # rest))) \<or>
     (\<exists>rest. choices r = Choice (Some (ChatCompletionMessage c)) # rest)"
proof (cases "choices r")
  case Nil
  then show ?thesis by (auto simp: firstChoiceContent_def)
next
  case (Cons ch rest)
  show ?thesis
  proof (cases ch)
    case (Choice m)
    show ?thesis
    proof (cases m)
      case None
      with Cons Choice show ?thesis by (auto simp: firstChoiceContent_def)
    next
      case (Some msg)
      with Cons Choice show ?thesis by (cases msg) (auto simp: firstChoiceContent_def)
    qed
  qed
qed

lemma firstChoiceContent_falsy:
  "\<not> truthy (firstChoiceContent r) \<longleftrightarrow>
     (choices r = [] \<or>
      (\<exists>others. choices r = Choice None # others) \<or>
      (\<exists>c others. choices r = Choice (Some (ChatCompletionMessage c)) # others \<and>
         (c = Undefined \<or> c = Null \<or> c = Str [])))"
proof -
  have "\<not> truthy (firstChoiceContent r) \<longleftrightarrow>
      firstChoiceContent r = Undefined \<or> firstChoiceContent r = Null \<or> firstChoiceContent r = Str []"
    by (cases "firstChoiceContent r") auto
  then show ?thesis
    unfolding firstChoiceContent_shape [of r] by blast
qed

lemma example_request_fields:
  "\<not> list_all isWhiteSpace (lit ''add logging'')"
  "\<not> list_all isWhiteSpace (lit ''// ... existing code ...\<newline>b'')"
  by (simp_all add: lit_def isWhiteSpace_def)

section \<open>The properties\<close>

text \<open>
  C1. A request whose \<open>instructions\<close> are empty or consist of white space only is refused
  with the validation error for the instructions, and a request whose \<open>codeEdit\<close> is empty
  or consists of white space only is refused with a validation error. In both cases the
  effects are unchanged: no request reaches the client (and nothing is written to the
  console), whatever the remote side would have answered.
\<close>

theorem applyEdit_rejects_blank_fields:
  assumes "list_all isWhiteSpace s"
  shows "(instructions request = Str s \<longrightarrow>
            applyEdit remote this request fx =
              (Inl (MorphError (lit ''Instructions are required and cannot be empty'') None), fx)) \<and>
         (codeEdit request = Str s \<longrightarrow>
            (\<exists>e. ValidationError e \<and> applyEdit remote this request fx = (Inl e, fx)))"
proof (intro conjI impI)
  assume "instructions request = Str s"
  then have "validateEditRequest request fx =
      (Inl (MorphError (lit ''Instructions are required and cannot be empty'') None), fx)"
    using assms by (simp add: validateEditRequest_def trim_eq_Nil_iff)
  then show "applyEdit remote this request fx =
      (Inl (MorphError (lit ''Instructions are required and cannot be empty'') None), fx)"
    by (rule applyEdit_validation_failure)
next
  assume c: "codeEdit request = Str s"
  then have "\<exists>e. fst (validateEditRequest request fx) = Inl e"
    using assms by (auto simp: validateEditRequest_def trim_eq_Nil_iff split: MaybeString.splits)
  then obtain e where e: "fst (validateEditRequest request fx) = Inl e" ..
  then have "validateEditRequest request fx = (Inl e, fx)"
    using validateEditRequest_error_effects [OF e] by (cases "validateEditRequest request fx") simp
  then have "applyEdit remote this request fx = (Inl e, fx)"
    by (rule applyEdit_validation_failure)
  moreover have "ValidationError e" using e by (rule validateEditRequest_throws)
  ultimately show "\<exists>e. ValidationError e \<and> applyEdit remote this request fx = (Inl e, fx)" by blast
qed

theorem applyEdit_rejects_blank_fields_witness:
  "list_all isWhiteSpace (lit ''  '') \<and>
   applyEdit (answering (lit ''x'')) example_service
     \<lparr>instructions = Str (lit ''  ''), originalContent = Str (lit ''a''), codeEdit = Str (lit ''b'')\<rparr>
     no_effects =
     (Inl (MorphError (lit ''Instructions are required and cannot be empty'') None), no_effects) \<and>
   (\<exists>e. ValidationError e \<and>
     applyEdit (answering (lit ''x'')) example_service
       \<lparr>instructions = Str (lit ''add logging''), originalContent = Str (lit ''a''), codeEdit = Str (lit ''  '')\<rparr>
       no_effects = (Inl e, no_effects))"
  using
    applyEdit_rejects_blank_fields [of "lit ''  ''"
      "\<lparr>instructions = Str (lit ''  ''), originalContent = Str (lit ''a''), codeEdit = Str (lit ''b'')\<rparr>"
      "answering (lit ''x'')" example_service no_effects]
    applyEdit_rejects_blank_fields [of "lit ''  ''"
      "\<lparr>instructions = Str (lit ''add logging''), originalContent = Str (lit ''a''), codeEdit = Str (lit ''  '')\<rparr>"
      "answering (lit ''x'')" example_service no_effects]
  by (simp add: lit_def isWhiteSpace_def)

text \<open>
  C2. For a request that passes validation: when the client answers with a completion whose
  first choice has a message with a non-empty string \<open>X\<close> as its content, \<open>applyEdit\<close>
  returns exactly \<open>X\<close>; and \<open>applyEdit\<close> fails with the empty-response error exactly when
  the client answers and the completion has no choice, or its first choice has no message,
  or the content of that message is \<open>undefined\<close>, \<open>null\<close> or the empty string.
\<close>

theorem applyEdit_returns_first_choice_content:
  assumes "instructions request = Str i" "\<not> list_all isWhiteSpace i"
    and "originalContent request = Str original"
    and "codeEdit request = Str edit" "\<not> list_all isWhiteSpace edit"
  shows "(remote (client this) (applyEdit_request request) = Inr response \<and>
          choices response = Choice (Some (ChatCompletionMessage (Str X))) # rest \<and> X \<noteq> [] \<longrightarrow>
            fst (applyEdit remote this request fx) = Inr X) \<and>
         (fst (applyEdit remote this request fx) =
            Inl (MorphError (lit ''Morph API returned empty response'') None) \<longleftrightarrow>
          (\<exists>r. remote (client this) (applyEdit_request request) = Inr r \<and>
             (choices r = [] \<or>
              (\<exists>others. choices r = Choice None # others) \<or>
              (\<exists>c others. choices r = Choice (Some (ChatCompletionMessage c)) # others \<and>
                 (c = Undefined \<or> c = Null \<or> c = Str [])))))"
proof -
  note a = applyEdit_accepted [OF assms, of remote this fx]
  show ?thesis
  proof (cases "remote (client this) (applyEdit_request request)")
    case (Inl rejection)
    then show ?thesis using a
      by (cases rejection) (simp_all add: request_failed_not_empty_response)
  next
    case (Inr r)
    have first: "choices r = Choice (Some (ChatCompletionMessage (Str X))) # rest \<Longrightarrow>
        firstChoiceContent r = Str X"
      by (simp add: firstChoiceContent_def)
    have "fst (applyEdit remote this request fx) =
        Inl (MorphError (lit ''Morph API returned empty response'') None) \<longleftrightarrow>
        \<not> truthy (firstChoiceContent r)"
      using a Inr by simp
    then show ?thesis using a Inr first firstChoiceContent_falsy [of r] by auto
  qed
qed

theorem applyEdit_returns_first_choice_content_witness:
  "\<not> list_all isWhiteSpace (lit ''add logging'') \<and>
   \<not> list_all isWhiteSpace (lit ''// ... existing code ...\<newline>b'') \<and>
   fst (applyEdit (answering (lit ''merged'')) example_service example_request no_effects) =
     Inr (lit ''merged'') \<and>
   fst (applyEdit (answering []) example_service example_request no_effects) =
     Inl (MorphError (lit ''Morph API returned empty response'') None) \<and>
   fst (applyEdit (responding (ChatCompletion [Choice (Some (ChatCompletionMessage Null))]))
          example_service example_request no_effects) =
     Inl (MorphError (lit ''Morph API returned empty response'') None)"
  using
    applyEdit_returns_first_choice_content [where request = example_request and remote = "answering (lit ''merged'')"
      and this = example_service and fx = no_effects and X = "lit ''merged''" and rest = "[]"
      and response = "ChatCompletion [Choice (Some (ChatCompletionMessage (Str (lit ''merged''))))]",
      OF _ example_request_fields(1) _ _ example_request_fields(2)]
    applyEdit_returns_first_choice_content [where request = example_request and remote = "answering []"
      and this = example_service and fx = no_effects,
      OF _ example_request_fields(1) _ _ example_request_fields(2)]
    applyEdit_returns_first_choice_content [where request = example_request
      and remote = "responding (ChatCompletion [Choice (Some (ChatCompletionMessage Null))])"
      and this = example_service and fx = no_effects,
      OF _ example_request_fields(1) _ _ example_request_fields(2)]
    example_request_fields
  by (simp add: lit_def)

text \<open>
  C3. The client is the OpenAI SDK's, and what it rejects with are \<open>Error\<close> objects. For a
  request that passes validation, when the client rejects with an \<open>Error\<close> object,
  \<open>applyEdit\<close> fails with a \<open>MorphError\<close> whose message is \<open>Morph API request failed: \<close>
  followed by the message of that error and whose cause is that error. The errors raised
  inside are re-raised as they are: when \<open>validateEditRequest\<close> throws, \<open>applyEdit\<close> fails
  with that validation error; when the client answers without usable content, \<open>applyEdit\<close>
  fails with the empty-response error, which has no cause and is not prefixed; and in
  general a \<open>MorphError\<close> thrown inside the \<open>try\<close> block is what \<open>applyEdit\<close> fails with.
\<close>

theorem applyEdit_wraps_errors:
  "(\<not> list_all isWhiteSpace i \<and> \<not> list_all isWhiteSpace edit \<and>
    request = \<lparr>instructions = Str i, originalContent = Str original, codeEdit = Str edit\<rparr> \<and>
    remote (client this) (applyEdit_request request) = Inl (RejectError err) \<longrightarrow>
      fst (applyEdit remote this request fx) =
        Inl (MorphError (lit ''Morph API request failed: '' @ error_message err) (Some err))) \<and>
   (fst (validateEditRequest request' fx) = Inl e \<longrightarrow>
      ValidationError e \<and> fst (applyEdit remote this request' fx) = Inl e) \<and>
   (\<not> list_all isWhiteSpace i \<and> \<not> list_all isWhiteSpace edit \<and>
    request = \<lparr>instructions = Str i, originalContent = Str original, codeEdit = Str edit\<rparr> \<and>
    remote (client this) (applyEdit_request request) = Inr r \<and>
    (choices r = [] \<or>
     (\<exists>others. choices r = Choice None # others) \<or>
     (\<exists>c others. choices r = Choice (Some (ChatCompletionMessage c)) # others \<and>
        (c = Undefined \<or> c = Null \<or> c = Str []))) \<longrightarrow>
      fst (applyEdit remote this request fx) =
        Inl (MorphError (lit ''Morph API returned empty response'') None)) \<and>
   (fst (applyEdit_try remote this request' fx) = Inl (ThrownMorphError e') \<longrightarrow>
      fst (applyEdit remote this request' fx) = Inl e')"
proof (intro conjI impI)
  assume "fst (applyEdit_try remote this request' fx) = Inl (ThrownMorphError e')"
  then show "fst (applyEdit remote this request' fx) = Inl e'"
    by (cases "applyEdit_try remote this request' fx") (simp add: applyEdit_def)
next
  assume e: "fst (validateEditRequest request' fx) = Inl e"
  then show "ValidationError e" by (rule validateEditRequest_throws)
  from e have "validateEditRequest request' fx = (Inl e, snd (validateEditRequest request' fx))"
    by (cases "validateEditRequest request' fx") simp
  then have "applyEdit remote this request' fx = (Inl e, snd (validateEditRequest request' fx))"
    by (rule applyEdit_validation_failure)
  then show "fst (applyEdit remote this request' fx) = Inl e" by simp
next
  assume v: "\<not> list_all isWhiteSpace i \<and> \<not> list_all isWhiteSpace edit \<and>
    request = \<lparr>instructions = Str i, originalContent = Str original, codeEdit = Str edit\<rparr> \<and>
    remote (client this) (applyEdit_request request) = Inl (RejectError err)"
  then have "fst (applyEdit remote this request fx) =
     (case remote (client this) (applyEdit_request request) of
        Inl rejection \<Rightarrow> Inl (applyEdit_catch (thrown rejection))
      | Inr response \<Rightarrow>
          (if truthy (firstChoiceContent response) then Inr (toString (firstChoiceContent response))
           else Inl (MorphError (lit ''Morph API returned empty response'') None)))"
    by (intro applyEdit_accepted [where i = i and edit = edit and original = original]) simp_all
  with v show "fst (applyEdit remote this request fx) =
      Inl (MorphError (lit ''Morph API request failed: '' @ error_message err) (Some err))"
    by auto
next
  assume v: "\<not> list_all isWhiteSpace i \<and> \<not> list_all isWhiteSpace edit \<and>
    request = \<lparr>instructions = Str i, originalContent = Str original, codeEdit = Str edit\<rparr> \<and>
    remote (client this) (applyEdit_request request) = Inr r \<and>
    (choices r = [] \<or>
     (\<exists>others. choices r = Choice None # others) \<or>
     (\<exists>c others. choices r = Choice (Some (ChatCompletionMessage c)) # others \<and>
        (c = Undefined \<or> c = Null \<or> c = Str [])))"
  then have a: "fst (applyEdit remote this request fx) =
     (case remote (client this) (applyEdit_request request) of
        Inl rejection \<Rightarrow> Inl (applyEdit_catch (thrown rejection))
      | Inr response \<Rightarrow>
          (if truthy (firstChoiceContent response) then Inr (toString (firstChoiceContent response))
           else Inl (MorphError (lit ''Morph API returned empty response'') None)))"
    by (intro applyEdit_accepted [where i = i and edit = edit and original = original]) simp_all
  from v have "\<not> truthy (firstChoiceContent r)"
    unfolding firstChoiceContent_falsy [of r] by blast
  with a v show "fst (applyEdit remote this request fx) =
      Inl (MorphError (lit ''Morph API returned empty response'') None)"
    by auto
qed

theorem applyEdit_wraps_errors_witness:
  "\<not> list_all isWhiteSpace (lit ''add logging'') \<and>
   \<not> list_all isWhiteSpace (lit ''// ... existing code ...\<newline>b'') \<and>
   fst (applyEdit (rejecting (RejectError (JsError (lit ''APIConnectionError'') (lit ''Connection error.''))))
          example_service example_request no_effects) =
     Inl (MorphError (lit ''Morph API request failed: Connection error.'')
            (Some (JsError (lit ''APIConnectionError'') (lit ''Connection error.'')))) \<and>
   fst (validateEditRequest
          \<lparr>instructions = Str [], originalContent = Str (lit ''a''), codeEdit = Str (lit ''b'')\<rparr> no_effects) =
     Inl (MorphError (lit ''Instructions are required and cannot be empty'') None) \<and>
   fst (applyEdit (answering (lit ''merged'')) example_service
          \<lparr>instructions = Str [], originalContent = Str (lit ''a''), codeEdit = Str (lit ''b'')\<rparr> no_effects) =
     Inl (MorphError (lit ''Instructions are required and cannot be empty'') None) \<and>
   fst (applyEdit (responding (ChatCompletion [])) example_service example_request no_effects) =
     Inl (MorphError (lit ''Morph API returned empty response'') None) \<and>
   fst (applyEdit_try (responding (ChatCompletion [])) example_service example_request no_effects) =
     Inl (ThrownMorphError (MorphError (lit ''Morph API returned empty response'') None))"
  using
    applyEdit_wraps_errors [where i = "lit ''add logging''" and original = "lit ''a''"
      and edit = "lit ''// ... existing code ...\<newline>b''" and request = example_request
      and remote = "rejecting (RejectError (JsError (lit ''APIConnectionError'') (lit ''Connection error.'')))"
      and err = "JsError (lit ''APIConnectionError'') (lit ''Connection error.'')"
      and this = example_service and fx = no_effects]
    applyEdit_wraps_errors [where remote = "answering (lit ''merged'')" and this = example_service and fx = no_effects
      and request' = "\<lparr>instructions = Str [], originalContent = Str (lit ''a''), codeEdit = Str (lit ''b'')\<rparr>"
      and e = "MorphError (lit ''Instructions are required and cannot be empty'') None"]
    applyEdit_wraps_errors [where i = "lit ''add logging''" and original = "lit ''a''"
      and edit = "lit ''// ... existing code ...\<newline>b''" and request = example_request
      and remote = "responding (ChatCompletion [])" and r = "ChatCompletion []"
      and this = example_service and fx = no_effects and request' = example_request
      and e' = "MorphError (lit ''Morph API returned empty response'') None"]
    example_request_fields
    validateEditRequest_accepts [where request = example_request and i = "lit ''add logging''"
      and original = "lit ''a''" and edit = "lit ''// ... existing code ...\<newline>b''" and fx = no_effects]
  by (simp add: applyEdit_try_def validateEditRequest_def trim_def create_def firstChoiceContent_def)
     (simp add: lit_def)

text \<open>
  C4. The prompt is the three fields, verbatim, between the instruction, code and update
  tags, the segments separated by a line feed; a request that passes validation hands the
  client exactly one more request, whose only message has the role \<open>user\<close> and this prompt
  as its content; and for the instructions \<open>add logging\<close>, the original content \<open>a\<close> and
  the edit \<open>// ... existing code ...\<close>, line feed, \<open>b\<close> the prompt is the literal string
  of the template.
\<close>

theorem applyEdit_sends_formatted_prompt:
  "formatMorphPrompt \<lparr>instructions = Str i, originalContent = Str original, codeEdit = Str edit\<rparr> =
     lit ''<instruction>'' @ i @ lit ''</instruction>\<newline><code>'' @ original @
     lit ''</code>\<newline><update>'' @ edit @ lit ''</update>'' \<and>
   (\<not> list_all isWhiteSpace i \<and> \<not> list_all isWhiteSpace edit \<longrightarrow>
      requests (snd (applyEdit remote this
          \<lparr>instructions = Str i, originalContent = Str original, codeEdit = Str edit\<rparr> fx)) =
        requests fx @
          [\<lparr>model = lit ''morph-v3-large'',
            messages = [\<lparr>role = lit ''user'',
                         content = lit ''<instruction>'' @ i @ lit ''</instruction>\<newline><code>'' @ original @
                                   lit ''</code>\<newline><update>'' @ edit @ lit ''</update>''\<rparr>],
            max_tokens = None,
            stream = False\<rparr>]) \<and>
   formatMorphPrompt example_request =
     lit ''<instruction>add logging</instruction>\<newline><code>a</code>\<newline><update>// ... existing code ...\<newline>b</update>''"
proof (intro conjI impI)
  show "formatMorphPrompt \<lparr>instructions = Str i, originalContent = Str original, codeEdit = Str edit\<rparr> =
     lit ''<instruction>'' @ i @ lit ''</instruction>\<newline><code>'' @ original @
     lit ''</code>\<newline><update>'' @ edit @ lit ''</update>''"
    by (simp add: formatMorphPrompt_def)
next
  assume "\<not> list_all isWhiteSpace i \<and> \<not> list_all isWhiteSpace edit"
  then show "requests (snd (applyEdit remote this
          \<lparr>instructions = Str i, originalContent = Str original, codeEdit = Str edit\<rparr> fx)) =
        requests fx @
          [\<lparr>model = lit ''morph-v3-large'',
            messages = [\<lparr>role = lit ''user'',
                         content = lit ''<instruction>'' @ i @ lit ''</instruction>\<newline><code>'' @ original @
                                   lit ''</code>\<newline><update>'' @ edit @ lit ''</update>''\<rparr>],
            max_tokens = None,
            stream = False\<rparr>]"
    by (simp add: applyEdit_accepted_effects [where i = i and original = original and edit = edit]
        formatMorphPrompt_def MORPH_FAST_APPLY_MODEL_def)
next
  show "formatMorphPrompt example_request =
     lit ''<instruction>add logging</instruction>\<newline><code>a</code>\<newline><update>// ... existing code ...\<newline>b</update>''"
    by (simp add: formatMorphPrompt_def lit_def)
qed

theorem applyEdit_sends_formatted_prompt_witness:
  "\<not> list_all isWhiteSpace (lit ''add logging'') \<and>
   \<not> list_all isWhiteSpace (lit ''// ... existing code ...\<newline>b'') \<and>
   requests (snd (applyEdit (answering (lit ''merged'')) example_service example_request no_effects)) =
     [\<lparr>model = lit ''morph-v3-large'',
       messages = [\<lparr>role = lit ''user'',
                    content = lit ''<instruction>add logging</instruction>\<newline><code>a</code>\<newline><update>// ... existing code ...\<newline>b</update>''\<rparr>],
       max_tokens = None,
       stream = False\<rparr>]"
  using
    applyEdit_sends_formatted_prompt [where i = "lit ''add logging''" and original = "lit ''a''"
      and edit = "lit ''// ... existing code ...\<newline>b''"
      and remote = "answering (lit ''merged'')" and this = example_service and fx = no_effects]
    example_request_fields
  by (simp add: lit_def)

text \<open>
  C5, as the code has it. \<open>validateApiKey\<close> returns \<open>true\<close> exactly when its call of the
  client returns a reply, whatever the reply holds (it is not inspected), returns \<open>false\<close>
  exactly when that call rejects, with whatever value, and never throws. It hands the
  client one request: the fixed prompt with a cap of one token.
\<close>

theorem validateApiKey_true_iff_call_succeeds:
  "(fst (validateApiKey remote this fx) = Inr True \<longleftrightarrow>
      (\<exists>response. remote (client this) validateApiKey_request = Inr response)) \<and>
   (fst (validateApiKey remote this fx) = Inr False \<longleftrightarrow>
      (\<exists>rejection. remote (client this) validateApiKey_request = Inl rejection)) \<and>
   fst (validateApiKey remote this fx) \<noteq> Inl e \<and>
   snd (validateApiKey remote this fx) = fx\<lparr>requests := requests fx @ [validateApiKey_request]\<rparr>"
  by (cases "remote (client this) validateApiKey_request")
     (simp_all add: validateApiKey_def create_def)

theorem validateApiKey_true_iff_call_succeeds_witness:
  "fst (validateApiKey (answering (lit ''t'')) example_service no_effects) = Inr True \<and>
   fst (validateApiKey (rejecting (RejectError (JsError (lit ''AuthenticationError'') (lit ''401 Unauthorized''))))
          example_service no_effects) = Inr False \<and>
   fst (validateApiKey (rejecting (RejectValue JsNull)) example_service no_effects) = Inr False"
  using
    validateApiKey_true_iff_call_succeeds [where remote = "answering (lit ''t'')" and this = example_service and fx = no_effects]
    validateApiKey_true_iff_call_succeeds [where remote = "rejecting (RejectError (JsError (lit ''AuthenticationError'') (lit ''401 Unauthorized'')))"
      and this = example_service and fx = no_effects]
    validateApiKey_true_iff_call_succeeds [where remote = "rejecting (RejectValue JsNull)" and this = example_service and fx = no_effects]
  by simp

text \<open>
  C5 as stated counts a malformed response among the failures that give \<open>false\<close>. A reply
  that the client delivers gives \<open>true\<close> even when it is malformed: here a completion
  without any choice, and one whose only choice has no message.
\<close>

theorem validateApiKey_true_on_malformed_reply:
  "responding (ChatCompletion []) (client example_service) validateApiKey_request =
     Inr (ChatCompletion []) \<and>
   fst (validateApiKey (responding (ChatCompletion [])) example_service no_effects) = Inr True \<and>
   fst (validateApiKey (responding (ChatCompletion [Choice None])) example_service no_effects) = Inr True"
  by (simp add: validateApiKey_def create_def)

text \<open>
  C6. With instructions and an edit that are not blank, a request whose original content is
  the empty string passes validation (without a warning) and \<open>applyEdit\<close> goes on to the
  remote call. A request whose original content is \<open>undefined\<close> or \<open>null\<close> fails with a
  validation error and no remote call, whatever its other fields; when its instructions are
  not blank the error is the one for the missing original content.
\<close>

theorem validateEditRequest_originalContent:
  "(\<not> list_all isWhiteSpace i \<and> \<not> list_all isWhiteSpace edit \<longrightarrow>
      validateEditRequest \<lparr>instructions = Str i, originalContent = Str [], codeEdit = Str edit\<rparr> fx =
        (Inr (), fx) \<and>
      requests (snd (applyEdit remote this
          \<lparr>instructions = Str i, originalContent = Str [], codeEdit = Str edit\<rparr> fx)) =
        requests fx @
          [applyEdit_request \<lparr>instructions = Str i, originalContent = Str [], codeEdit = Str edit\<rparr>]) \<and>
   (originalContent request = Undefined \<or> originalContent request = Null \<longrightarrow>
      (\<exists>e. ValidationError e \<and> applyEdit remote this request fx = (Inl e, fx))) \<and>
   (instructions request = Str i \<and> \<not> list_all isWhiteSpace i \<and>
    (originalContent request = Undefined \<or> originalContent request = Null) \<longrightarrow>
      applyEdit remote this request fx =
        (Inl (MorphError (lit ''Original content is required (can be empty string for new files)'') None), fx))"
proof (intro conjI impI)
  assume v: "\<not> list_all isWhiteSpace i \<and> \<not> list_all isWhiteSpace edit"
  then show "validateEditRequest \<lparr>instructions = Str i, originalContent = Str [], codeEdit = Str edit\<rparr> fx =
        (Inr (), fx)"
    by (simp add: validateEditRequest_accepts [where i = i and original = "[]" and edit = edit])
  from v show "requests (snd (applyEdit remote this
          \<lparr>instructions = Str i, originalContent = Str [], codeEdit = Str edit\<rparr> fx)) =
        requests fx @
          [applyEdit_request \<lparr>instructions = Str i, originalContent = Str [], codeEdit = Str edit\<rparr>]"
    by (simp add: applyEdit_accepted_effects [where i = i and original = "[]" and edit = edit])
next
  assume a: "originalContent request = Undefined \<or> originalContent request = Null"
  then have "\<exists>e. fst (validateEditRequest request fx) = Inl e"
    by (auto simp: validateEditRequest_def)
  then obtain e where e: "fst (validateEditRequest request fx) = Inl e" ..
  then have "validateEditRequest request fx = (Inl e, fx)"
    using validateEditRequest_error_effects [OF e] by (cases "validateEditRequest request fx") simp
  then have "applyEdit remote this request fx = (Inl e, fx)"
    by (rule applyEdit_validation_failure)
  moreover have "ValidationError e" using e by (rule validateEditRequest_throws)
  ultimately show "\<exists>e. ValidationError e \<and> applyEdit remote this request fx = (Inl e, fx)" by blast
next
  assume "instructions request = Str i \<and> \<not> list_all isWhiteSpace i \<and>
    (originalContent request = Undefined \<or> originalContent request = Null)"
  then have "validateEditRequest request fx =
      (Inl (MorphError (lit ''Original content is required (can be empty string for new files)'') None), fx)"
    by (auto simp: validateEditRequest_def trim_eq_Nil_iff)
  then show "applyEdit remote this request fx =
      (Inl (MorphError (lit ''Original content is required (can be empty string for new files)'') None), fx)"
    by (rule applyEdit_validation_failure)
qed

theorem validateEditRequest_originalContent_witness:
  "\<not> list_all isWhiteSpace (lit ''create file'') \<and> \<not> list_all isWhiteSpace (lit ''x = 1'') \<and>
   validateEditRequest
     \<lparr>instructions = Str (lit ''create file''), originalContent = Str [], codeEdit = Str (lit ''x = 1'')\<rparr>
     no_effects = (Inr (), no_effects) \<and>
   applyEdit (answering (lit ''x = 1'')) example_service
     \<lparr>instructions = Str (lit ''create file''), originalContent = Undefined, codeEdit = Str (lit ''x = 1'')\<rparr>
     no_effects =
     (Inl (MorphError (lit ''Original content is required (can be empty string for new files)'') None),
      no_effects) \<and>
   (\<exists>e. ValidationError e \<and>
     applyEdit (answering (lit ''x = 1'')) example_service
       \<lparr>instructions = Str (lit ''create file''), originalContent = Null, codeEdit = Str (lit ''x = 1'')\<rparr>
       no_effects = (Inl e, no_effects))"
  using
    validateEditRequest_originalContent [where i = "lit ''create file''" and edit = "lit ''x = 1''" and fx = no_effects
      and remote = "answering (lit ''x = 1'')" and this = example_service
      and request = "\<lparr>instructions = Str (lit ''create file''), originalContent = Undefined, codeEdit = Str (lit ''x = 1'')\<rparr>"]
    validateEditRequest_originalContent [where i = "lit ''create file''" and edit = "lit ''x = 1''" and fx = no_effects
      and remote = "answering (lit ''x = 1'')" and this = example_service
      and request = "\<lparr>instructions = Str (lit ''create file''), originalContent = Null, codeEdit = Str (lit ''x = 1'')\<rparr>"]
  by (simp add: lit_def isWhiteSpace_def ValidationError_def)

text \<open>
  C7. For a request that is otherwise valid, validation succeeds whatever the markers. When
  the edit contains none of the three markers and the original content is not empty, one
  warning is written; when it contains a marker or the original content is empty, none is.
  In both cases \<open>applyEdit\<close> hands the request to the client.
\<close>

theorem validateEditRequest_marker_warning:
  assumes "instructions request = Str i" "\<not> list_all isWhiteSpace i"
    and "originalContent request = Str original"
    and "codeEdit request = Str edit" "\<not> list_all isWhiteSpace edit"
  shows "fst (validateEditRequest request fx) = Inr () \<and>
    (\<not> includes_js edit (lit ''// ... existing code ...'') \<and>
     \<not> includes_js edit (lit ''# ... existing code ...'') \<and>
     \<not> includes_js edit (lit ''<!-- ... existing code ... -->'') \<and> original \<noteq> [] \<longrightarrow>
       warnings (snd (applyEdit remote this request fx)) = warnings fx @ [lazy_marker_warning]) \<and>
    (includes_js edit (lit ''// ... existing code ...'') \<or>
     includes_js edit (lit ''# ... existing code ...'') \<or>
     includes_js edit (lit ''<!-- ... existing code ... -->'') \<or> original = [] \<longrightarrow>
       warnings (snd (applyEdit remote this request fx)) = warnings fx) \<and>
    requests (snd (applyEdit remote this request fx)) = requests fx @ [applyEdit_request request]"
  using applyEdit_accepted_effects [OF assms, of remote this fx] validateEditRequest_accepts [OF assms, of fx]
  by (auto simp: console_warn_def)

theorem validateEditRequest_marker_warning_witness:
  "\<not> list_all isWhiteSpace (lit ''add logging'') \<and>
   \<not> list_all isWhiteSpace (lit ''// ... existing code ...\<newline>b'') \<and>
   \<not> list_all isWhiteSpace (lit ''x = 1'') \<and>
   includes_js (lit ''// ... existing code ...\<newline>b'') (lit ''// ... existing code ...'') \<and>
   warnings (snd (applyEdit (answering (lit ''merged'')) example_service example_request no_effects)) = [] \<and>
   \<not> includes_js (lit ''x = 1'') (lit ''// ... existing code ...'') \<and>
   \<not> includes_js (lit ''x = 1'') (lit ''# ... existing code ...'') \<and>
   \<not> includes_js (lit ''x = 1'') (lit ''<!-- ... existing code ... -->'') \<and>
   warnings (snd (applyEdit (answering (lit ''merged'')) example_service
     \<lparr>instructions = Str (lit ''add logging''), originalContent = Str (lit ''a''), codeEdit = Str (lit ''x = 1'')\<rparr>
     no_effects)) = [lazy_marker_warning] \<and>
   requests (snd (applyEdit (answering (lit ''merged'')) example_service
     \<lparr>instructions = Str (lit ''add logging''), originalContent = Str (lit ''a''), codeEdit = Str (lit ''x = 1'')\<rparr>
     no_effects)) =
     [applyEdit_request
        \<lparr>instructions = Str (lit ''add logging''), originalContent = Str (lit ''a''), codeEdit = Str (lit ''x = 1'')\<rparr>]"
  using
    validateEditRequest_marker_warning [where request = example_request and i = "lit ''add logging''" and original = "lit ''a''"
      and edit = "lit ''// ... existing code ...\<newline>b''"
      and remote = "answering (lit ''merged'')" and this = example_service and fx = no_effects]
    validateEditRequest_marker_warning [where request = "\<lparr>instructions = Str (lit ''add logging''), originalContent = Str (lit ''a''), codeEdit = Str (lit ''x = 1'')\<rparr>"
      and i = "lit ''add logging''" and original = "lit ''a''" and edit = "lit ''x = 1''"
      and remote = "answering (lit ''merged'')" and this = example_service and fx = no_effects]
  by (simp add: lit_def isWhiteSpace_def)

text \<open>
  C8. A service constructed from a configuration without a timeout has the timeout 30000,
  in its configuration and in its client. A service that \<open>createMorphService\<close> makes from a
  store without a base URL has the base URL \<open>https://api.morphllm.com/v1\<close>, in its
  configuration and in its client.
\<close>

theorem default_timeout_and_base_url:
  "(timeout cfg = None \<longrightarrow>
      timeout (config (MorphService_new cfg)) = Some 30000 \<and>
      client_timeout (client (MorphService_new cfg)) = Some 30000) \<and>
   (morphBaseUrl cacheService = None \<and> createMorphService cacheService = Some service \<longrightarrow>
      baseUrl (config service) = lit ''https://api.morphllm.com/v1'' \<and>
      baseURL (client service) = lit ''https://api.morphllm.com/v1'')"
  by (auto simp: MorphService_new_def DEFAULT_MORPH_TIMEOUT_MS_def createMorphService_def Let_def
      split: if_splits option.splits)

theorem default_timeout_and_base_url_witness:
  "timeout (config (MorphService_new
      \<lparr>apiKey = lit ''sk-test'', baseUrl = lit ''http://localhost:8080'', timeout = None\<rparr>)) = Some 30000 \<and>
   createMorphService \<lparr>morphEnabled = Some True, morphApiKey = Some (lit ''sk-test''), morphBaseUrl = None\<rparr> =
     Some \<lparr>client = OpenAI (lit ''sk-test'') (lit ''https://api.morphllm.com/v1'') (Some 30000),
           config = \<lparr>apiKey = lit ''sk-test'', baseUrl = lit ''https://api.morphllm.com/v1'',
                     timeout = Some 30000\<rparr>\<rparr> \<and>
   baseUrl (config (the (createMorphService
      \<lparr>morphEnabled = Some True, morphApiKey = Some (lit ''sk-test''), morphBaseUrl = None\<rparr>))) =
     lit ''https://api.morphllm.com/v1''"
  using
    default_timeout_and_base_url [where cfg = "\<lparr>apiKey = lit ''sk-test'', baseUrl = lit ''http://localhost:8080'', timeout = None\<rparr>"
      and cacheService = "\<lparr>morphEnabled = Some True, morphApiKey = Some (lit ''sk-test''), morphBaseUrl = None\<rparr>"
      and service = "\<lparr>client = OpenAI (lit ''sk-test'') (lit ''https://api.morphllm.com/v1'') (Some 30000),
           config = \<lparr>apiKey = lit ''sk-test'', baseUrl = lit ''https://api.morphllm.com/v1'',
                     timeout = Some 30000\<rparr>\<rparr>"]
  by (simp add: createMorphService_def MorphService_new_def DEFAULT_MORPH_TIMEOUT_MS_def lit_def)

text \<open>
  C9. \<open>isMorphAvailable\<close> holds exactly when \<open>createMorphService\<close> returns a service, and
  exactly when the enabled flag is \<open>true\<close> and the key is a non-empty string.
\<close>

theorem isMorphAvailable_iff_createMorphService:
  "(isMorphAvailable cacheService \<longleftrightarrow> createMorphService cacheService \<noteq> None) \<and>
   (isMorphAvailable cacheService \<longleftrightarrow>
      morphEnabled cacheService = Some True \<and>
      (\<exists>key. morphApiKey cacheService = Some key \<and> key \<noteq> []))"
  by (cases "morphEnabled cacheService"; cases "morphApiKey cacheService")
     (auto simp: isMorphAvailable_def createMorphService_def)

theorem isMorphAvailable_iff_createMorphService_witness:
  "isMorphAvailable \<lparr>morphEnabled = Some True, morphApiKey = Some (lit ''sk-test''), morphBaseUrl = None\<rparr> \<and>
   createMorphService \<lparr>morphEnabled = Some True, morphApiKey = Some (lit ''sk-test''), morphBaseUrl = None\<rparr> \<noteq> None \<and>
   \<not> isMorphAvailable \<lparr>morphEnabled = Some True, morphApiKey = Some [], morphBaseUrl = None\<rparr> \<and>
   createMorphService \<lparr>morphEnabled = Some True, morphApiKey = Some [], morphBaseUrl = None\<rparr> = None \<and>
   \<not> isMorphAvailable \<lparr>morphEnabled = None, morphApiKey = Some (lit ''sk-test''), morphBaseUrl = None\<rparr> \<and>
   createMorphService \<lparr>morphEnabled = None, morphApiKey = Some (lit ''sk-test''), morphBaseUrl = None\<rparr> = None"
  using
    isMorphAvailable_iff_createMorphService [of "\<lparr>morphEnabled = Some True, morphApiKey = Some (lit ''sk-test''), morphBaseUrl = None\<rparr>"]
    isMorphAvailable_iff_createMorphService [of "\<lparr>morphEnabled = Some True, morphApiKey = Some [], morphBaseUrl = None\<rparr>"]
    isMorphAvailable_iff_createMorphService [of "\<lparr>morphEnabled = None, morphApiKey = Some (lit ''sk-test''), morphBaseUrl = None\<rparr>"]
  by (simp add: lit_def isMorphAvailable_def)

text \<open>
  C10. For a request that passes validation, when the client answers with no choice at all,
  or with a first choice that has no message, the content read is \<open>undefined\<close> and
  \<open>applyEdit\<close> fails with the empty-response error (not with a wrapped \<open>TypeError\<close>).
\<close>

theorem applyEdit_guards_missing_choice:
  assumes "instructions request = Str i" "\<not> list_all isWhiteSpace i"
    and "originalContent request = Str original"
    and "codeEdit request = Str edit" "\<not> list_all isWhiteSpace edit"
    and "remote (client this) (applyEdit_request request) = Inr response"
    and "choices response = [] \<or> (\<exists>rest. choices response = Choice None # rest)"
  shows "firstChoiceContent response = Undefined \<and>
    fst (applyEdit remote this request fx) =
      Inl (MorphError (lit ''Morph API returned empty response'') None)"
proof -
  have u: "firstChoiceContent response = Undefined"
    using assms(7) by (auto simp: firstChoiceContent_def)
  then show ?thesis
    using applyEdit_accepted [OF assms(1-5), of remote this fx] assms(6) by simp
qed

theorem applyEdit_guards_missing_choice_witness:
  "\<not> list_all isWhiteSpace (lit ''add logging'') \<and>
   \<not> list_all isWhiteSpace (lit ''// ... existing code ...\<newline>b'') \<and>
   fst (applyEdit (responding (ChatCompletion [])) example_service example_request no_effects) =
     Inl (MorphError (lit ''Morph API returned empty response'') None) \<and>
   fst (applyEdit (responding (ChatCompletion [Choice None])) example_service example_request no_effects) =
     Inl (MorphError (lit ''Morph API returned empty response'') None)"
  using
    applyEdit_guards_missing_choice [where request = example_request and remote = "responding (ChatCompletion [])"
      and this = example_service and fx = no_effects and response = "ChatCompletion []",
      OF _ example_request_fields(1) _ _ example_request_fields(2)]
    applyEdit_guards_missing_choice [where request = example_request and remote = "responding (ChatCompletion [Choice None])"
      and this = example_service and fx = no_effects and response = "ChatCompletion [Choice None]",
      OF _ example_request_fields(1) _ _ example_request_fields(2)]
    example_request_fields
  by simp

end
